theory Spec2Isabelle
  imports Complex_Main
begin

section \<open>Tensor entries\<close>

text \<open>
  The tensors of \<^verbatim>\<open>modules/nextsrgan.py\<close> hold floating-point numbers. An entry is
  either finite, one of the two infinities, or not-a-number. The special values follow
  IEEE 754, which is what \<^verbatim>\<open>*\<close> and \<^verbatim>\<open>+\<close> on tensors compute entry by entry
  when the statements of a \<^verbatim>\<open>call\<close> are executed as they are written: a product of
  zero and an infinity is NaN, a sum of opposite infinities is NaN, and NaN absorbs
  everything. Finite results are written as exact reals: rounding and overflow are
  not part of this type, and the two zeros are identified (they compare equal). Every
  statement below that mentions a finite result only uses products with zero and sums with
  zero, which are exact in floating point as well.
\<close>

datatype fval = Fin real | PInf | NInf | NaN

fun is_finite :: "fval \<Rightarrow> bool" where
  "is_finite (Fin a) = True"
| "is_finite PInf = False"
| "is_finite NInf = False"
| "is_finite NaN = False"

fun fneg :: "fval \<Rightarrow> fval" where
  "fneg (Fin a) = Fin (- a)"
| "fneg PInf = NInf"
| "fneg NInf = PInf"
| "fneg NaN = NaN"

text \<open>The product of an infinity with a finite number \<open>a\<close>.\<close>

definition inf_times :: "fval \<Rightarrow> real \<Rightarrow> fval" where
  "inf_times i a = (if a = 0 then NaN else if 0 < a then i else fneg i)"

fun fmul :: "fval \<Rightarrow> fval \<Rightarrow> fval" where
  "fmul NaN y = NaN"
| "fmul x NaN = NaN"
| "fmul (Fin a) (Fin b) = Fin (a * b)"
| "fmul (Fin a) PInf = inf_times PInf a"
| "fmul (Fin a) NInf = inf_times NInf a"
| "fmul PInf (Fin b) = inf_times PInf b"
| "fmul NInf (Fin b) = inf_times NInf b"
| "fmul PInf PInf = PInf"
| "fmul PInf NInf = NInf"
| "fmul NInf PInf = NInf"
| "fmul NInf NInf = PInf"

fun fadd :: "fval \<Rightarrow> fval \<Rightarrow> fval" where
  "fadd NaN y = NaN"
| "fadd x NaN = NaN"
| "fadd (Fin a) (Fin b) = Fin (a + b)"
| "fadd (Fin a) PInf = PInf"
| "fadd (Fin a) NInf = NInf"
| "fadd PInf (Fin b) = PInf"
| "fadd NInf (Fin b) = NInf"
| "fadd PInf PInf = PInf"
| "fadd NInf NInf = NInf"
| "fadd PInf NInf = NaN"
| "fadd NInf PInf = NaN"

section \<open>Regularisation and initialisation policies\<close>

text \<open>
  \<^verbatim>\<open>def _regularizer(weights_decay=5e-4): return tf.keras.regularizers.l2(weights_decay)\<close>

  The function only forwards its coefficient to the framework's \<^verbatim>\<open>l2\<close> factory; the
  policy that the factory returns is a value that holds the coefficient.
\<close>

datatype regularizer = L2 fval




text \<open>The source's \<^verbatim>\<open>_regularizer\<close>; the default of its argument is \<^verbatim>\<open>5e-4\<close>.\<close>

definition regularizer :: "fval \<Rightarrow> regularizer" where
  "regularizer weights_decay = L2 weights_decay"

definition regularizer_default :: regularizer where
  "regularizer_default = regularizer (Fin (5 / 10000))"

text \<open>
  \<^verbatim>\<open>def _kernel_init(scale=1.0, seed=None)\<close> doubles the scale and returns a
  variance-scaling initialiser in fan-in mode with a truncated normal distribution.
\<close>

datatype fan_mode = Fan_in | Fan_out | Fan_avg
datatype distribution = Truncated_normal | Untruncated_normal | Uniform

record initializer =
  init_scale :: real
  init_mode :: fan_mode
  init_distribution :: distribution
  init_seed :: "int option"

definition kernel_init :: "real \<Rightarrow> int option \<Rightarrow> initializer" where
  "kernel_init scale seed =
     (let scale = 2 * scale
      in \<lparr>init_scale = scale, init_mode = Fan_in,
          init_distribution = Truncated_normal, init_seed = seed\<rparr>)"

section \<open>Batch normalisation gated on trainability\<close>

text \<open>
  \<^verbatim>\<open>
  def call(self, x, training=False):
      if training is None:
          training = tf.constant(False)
      training = tf.logical_and(training, self.trainable)
      return super().call(x, training)
  \<close>
  The layer is its \<^verbatim>\<open>trainable\<close> attribute; the transform of the parent class, which
  is the framework's, is the parameter \<open>super_call\<close>. The caller's flag is
  \<open>None\<close>, \<open>Some False\<close> or \<open>Some True\<close>.
\<close>

definition BatchNormalization_call ::
  "bool \<Rightarrow> ('x \<Rightarrow> bool \<Rightarrow> 'y) \<Rightarrow> 'x \<Rightarrow> bool option \<Rightarrow> 'y" where
  "BatchNormalization_call trainable super_call x training =
     (let training = (case training of None \<Rightarrow> False | Some t \<Rightarrow> t);
          training = (training \<and> trainable)
      in super_call x training)"

section \<open>Errors\<close>

text \<open>
  Nothing in the module catches an exception. A missing dictionary key raises
  \<^verbatim>\<open>KeyError\<close> with the key; the framework rejects an ill-formed layer or an ill-shaped
  symbolic tensor with \<^verbatim>\<open>ValueError\<close> while a model is built, and an operation on
  concrete tensors of incompatible shapes with \<^verbatim>\<open>InvalidArgumentError\<close>.
\<close>

datatype error = KeyError string | ValueError | InvalidArgumentError

definition and_then :: "error + 'a \<Rightarrow> ('a \<Rightarrow> error + 'b) \<Rightarrow> error + 'b" where
  "and_then r f = (case r of Inl e \<Rightarrow> Inl e | Inr v \<Rightarrow> f v)"

section \<open>Convolution layers\<close>

text \<open>
  The arguments the module passes to \<^verbatim>\<open>Conv2D\<close>. Where the module leaves one out the
  framework's default stands: one stride, a bias, no activation, no name. The bias
  initialiser is \<^verbatim>\<open>zeros\<close> everywhere (given or by default) and is left out.
\<close>

datatype padding = Same | Valid
datatype activation = GELU

record conv2d =
  filters :: nat
  kernel_size :: nat
  strides :: nat
  padding :: padding
  use_bias :: bool
  activation :: "activation option"
  kernel_initializer :: initializer
  kernel_regularizer :: "regularizer option"
  name :: "string option"

text \<open>
  The extent of one spatial axis after a convolution: with \<^verbatim>\<open>same\<close> padding the
  input extent divided by the stride, rounded up; with \<^verbatim>\<open>valid\<close> padding only the
  windows that fit.
\<close>

definition conv_out_dim :: "padding \<Rightarrow> nat \<Rightarrow> nat \<Rightarrow> nat \<Rightarrow> nat option" where
  "conv_out_dim p k s n =
     (if s = 0 \<or> k = 0 then None
      else case p of
        Same \<Rightarrow> Some ((n + s - 1) div s)
      | Valid \<Rightarrow> if n < k then None else Some ((n - k) div s + 1))"

section \<open>Concrete tensors\<close>

text \<open>
  A tensor of rank 4 in the layout \<^verbatim>\<open>[batch, height, width, channels]\<close>, with its
  entries in row-major order: the entry at \<open>(n, i, j, k)\<close> is at position
  \<open>((n * height + i) * width + j) * chans + k\<close>, where \<open>chans\<close> is the number of channels.
\<close>

record tensor =
  batch :: nat
  height :: nat
  width :: nat
  chans :: nat
  elems :: "fval list"

definition numel :: "tensor \<Rightarrow> nat" where
  "numel t = batch t * height t * width t * chans t"

definition wf_tensor :: "tensor \<Rightarrow> bool" where
  "wf_tensor t = (length (elems t) = numel t)"

definition shape_of :: "tensor \<Rightarrow> nat \<times> nat \<times> nat \<times> nat" where
  "shape_of t = (batch t, height t, width t, chans t)"

definition all_finite :: "tensor \<Rightarrow> bool" where
  "all_finite t = list_all is_finite (elems t)"

text \<open>
  The weights of a convolution layer (kernel and bias, with the activation applied to the
  result) are not fixed by the module: they are drawn by the initialiser and changed by
  training. A layer's response stands for them: it gives, for an input tensor, the entry
  of the output at each position. The shape of the output is fixed by the layer's
  arguments alone.
\<close>

type_synonym response = "tensor \<Rightarrow> nat \<Rightarrow> fval"

definition Conv2D_call :: "conv2d \<Rightarrow> response \<Rightarrow> tensor \<Rightarrow> error + tensor" where
  "Conv2D_call layer K x =
     (case (conv_out_dim (padding layer) (kernel_size layer) (strides layer) (height x),
            conv_out_dim (padding layer) (kernel_size layer) (strides layer) (width x)) of
        (Some h, Some w) \<Rightarrow>
          Inr \<lparr>batch = batch x, height = h, width = w, chans = filters layer,
               elems = map (K x) [0..<batch x * h * w * filters layer]\<rparr>
      | _ \<Rightarrow> Inl ValueError)"

text \<open>\<^verbatim>\<open>tf.concat(ts, 3)\<close>: the channel vectors of the tensors, pixel by pixel.\<close>

definition pixel :: "tensor \<Rightarrow> nat \<Rightarrow> fval list" where
  "pixel t p = take (chans t) (drop (p * chans t) (elems t))"

definition same_pixels :: "tensor \<Rightarrow> tensor \<Rightarrow> bool" where
  "same_pixels t u = (batch u = batch t \<and> height u = height t \<and> width u = width t)"

fun concat3 :: "tensor list \<Rightarrow> error + tensor" where
  "concat3 [] = Inl ValueError"
| "concat3 (t # ts) =
     (if list_all (same_pixels t) ts
      then Inr \<lparr>batch = batch t, height = height t, width = width t,
                chans = sum_list (map chans (t # ts)),
                elems = concat (map (\<lambda>p. concat (map (\<lambda>u. pixel u p) (t # ts)))
                                    [0..<batch t * height t * width t])\<rparr>
      else Inl InvalidArgumentError)"

text \<open>\<^verbatim>\<open>t * s\<close> for a Python number \<open>s\<close>: every entry times \<open>s\<close>.\<close>

definition mul_scalar :: "tensor \<Rightarrow> fval \<Rightarrow> tensor" where
  "mul_scalar t s = t\<lparr>elems := map (\<lambda>v. fmul v s) (elems t)\<rparr>"

text \<open>
  \<^verbatim>\<open>x + y\<close> on tensors broadcasts: along each axis the extents are equal or one of them
  is 1, and the tensor of extent 1 is read at coordinate 0 there. Any other pair of
  shapes is an error.
\<close>

definition bdim :: "nat \<Rightarrow> nat \<Rightarrow> nat option" where
  "bdim a b = (if a = b then Some a else if a = 1 then Some b
               else if b = 1 then Some a else None)"

definition bcoord :: "nat \<Rightarrow> nat \<Rightarrow> nat" where
  "bcoord extent c = (if extent = 1 then 0 else c)"

definition bget :: "tensor \<Rightarrow> nat \<Rightarrow> nat \<Rightarrow> nat \<Rightarrow> nat \<Rightarrow> fval" where
  "bget t n i j k =
     elems t ! (((bcoord (batch t) n * height t + bcoord (height t) i) * width t
                 + bcoord (width t) j) * chans t + bcoord (chans t) k)"

definition tensor_add :: "tensor \<Rightarrow> tensor \<Rightarrow> error + tensor" where
  "tensor_add x y =
     (case (bdim (batch x) (batch y), bdim (height x) (height y),
            bdim (width x) (width y), bdim (chans x) (chans y)) of
        (Some b, Some h, Some w, Some c) \<Rightarrow>
          Inr \<lparr>batch = b, height = h, width = w, chans = c,
               elems = map (\<lambda>q. let k = q mod c; j = (q div c) mod w;
                                     i = (q div (c * w)) mod h; n = q div (c * w * h)
                                 in fadd (bget x n i j k) (bget y n i j k))
                           [0..<b * h * w * c]\<rparr>
      | _ \<Rightarrow> Inl InvalidArgumentError)"

section \<open>Residual dense block\<close>

text \<open>
  \<^verbatim>\<open>ResDenseBlock_5C.__init__(self, nf=64, gc=32, res_beta=0.2, wd=0.)\<close> stores
  \<^verbatim>\<open>res_beta\<close> and five convolution layers made by one partial application of
  \<^verbatim>\<open>Conv2D\<close>, which differ in their number of filters only.
\<close>

record rdb5c =
  rdb_res_beta :: fval
  conv1 :: conv2d
  conv2 :: conv2d
  conv3 :: conv2d
  conv4 :: conv2d
  conv5 :: conv2d

definition ResDenseBlock_5C :: "nat \<Rightarrow> nat \<Rightarrow> fval \<Rightarrow> fval \<Rightarrow> rdb5c" where
  "ResDenseBlock_5C nf gc res_beta wd =
     (let Conv2DLayer = (\<lambda>f. \<lparr>filters = f, kernel_size = 3, strides = 1, padding = Same,
                               use_bias = True, activation = Some GELU,
                               kernel_initializer = kernel_init (1 / 10) None,
                               kernel_regularizer = Some (regularizer wd),
                               name = None\<rparr>)
      in \<lparr>rdb_res_beta = res_beta,
          conv1 = Conv2DLayer gc, conv2 = Conv2DLayer gc, conv3 = Conv2DLayer gc,
          conv4 = Conv2DLayer gc, conv5 = Conv2DLayer nf\<rparr>)"

text \<open>The responses of the five layers of a block.\<close>

record rdb5c_weights =
  w1 :: response
  w2 :: response
  w3 :: response
  w4 :: response
  w5 :: response

text \<open>
  \<^verbatim>\<open>
  def call(self, x):
      x1 = self.conv1(x)
      x2 = self.conv2(tf.concat([x, x1], 3))
      x3 = self.conv3(tf.concat([x, x1, x2], 3))
      x4 = self.conv4(tf.concat([x, x1, x2, x3], 3))
      x5 = self.conv5(tf.concat([x, x1, x2, x3, x4], 3))
      return x5 * self.res_beta + x
  \<close>
\<close>

definition ResDenseBlock_5C_call :: "rdb5c \<Rightarrow> rdb5c_weights \<Rightarrow> tensor \<Rightarrow> error + tensor" where
  "ResDenseBlock_5C_call self W x =
     and_then (Conv2D_call (conv1 self) (w1 W) x) (\<lambda>x1.
     and_then (concat3 [x, x1]) (\<lambda>c2.
     and_then (Conv2D_call (conv2 self) (w2 W) c2) (\<lambda>x2.
     and_then (concat3 [x, x1, x2]) (\<lambda>c3.
     and_then (Conv2D_call (conv3 self) (w3 W) c3) (\<lambda>x3.
     and_then (concat3 [x, x1, x2, x3]) (\<lambda>c4.
     and_then (Conv2D_call (conv4 self) (w4 W) c4) (\<lambda>x4.
     and_then (concat3 [x, x1, x2, x3, x4]) (\<lambda>c5.
     and_then (Conv2D_call (conv5 self) (w5 W) c5) (\<lambda>x5.
     tensor_add (mul_scalar x5 (rdb_res_beta self)) x)))))))))"

section \<open>Residual-in-residual dense block\<close>

text \<open>
  \<^verbatim>\<open>ResInResDenseBlock.__init__(self, nf=64, gc=32, res_beta=0.2, wd=0.)\<close> stores
  \<^verbatim>\<open>res_beta\<close> and three residual dense blocks built from the same arguments.
\<close>

record rrdb =
  rrdb_res_beta :: fval
  rdb_1 :: rdb5c
  rdb_2 :: rdb5c
  rdb_3 :: rdb5c

definition ResInResDenseBlock :: "nat \<Rightarrow> nat \<Rightarrow> fval \<Rightarrow> fval \<Rightarrow> rrdb" where
  "ResInResDenseBlock nf gc res_beta wd =
     \<lparr>rrdb_res_beta = res_beta,
      rdb_1 = ResDenseBlock_5C nf gc res_beta wd,
      rdb_2 = ResDenseBlock_5C nf gc res_beta wd,
      rdb_3 = ResDenseBlock_5C nf gc res_beta wd\<rparr>"

record rrdb_weights =
  rdb_1_w :: rdb5c_weights
  rdb_2_w :: rdb5c_weights
  rdb_3_w :: rdb5c_weights

text \<open>
  \<^verbatim>\<open>
  def call(self, x):
      out = self.rdb_1(x)
      out = self.rdb_2(out)
      out = self.rdb_3(out)
      return out * self.res_beta + x
  \<close>
\<close>

definition ResInResDenseBlock_call :: "rrdb \<Rightarrow> rrdb_weights \<Rightarrow> tensor \<Rightarrow> error + tensor" where
  "ResInResDenseBlock_call self W x =
     and_then (ResDenseBlock_5C_call (rdb_1 self) (rdb_1_w W) x) (\<lambda>out.
     and_then (ResDenseBlock_5C_call (rdb_2 self) (rdb_2_w W) out) (\<lambda>out.
     and_then (ResDenseBlock_5C_call (rdb_3 self) (rdb_3_w W) out) (\<lambda>out.
     tensor_add (mul_scalar out (rrdb_res_beta self)) x)))"

section \<open>Symbolic tensors\<close>

text \<open>
  The two model builders run the layers on symbolic tensors: \<^verbatim>\<open>Input\<close> makes a
  placeholder of which only the shape is known, with an unknown batch extent in front, and
  every layer and operation applied to it derives the shape of its result. An extent is
  \<open>None\<close> when it is unknown before a batch of images is fed. The same rules give the
  shape of the result for a concrete batch, where every extent is known and
  \<^verbatim>\<open>tf.shape(t)[i]\<close> is the extent itself.
\<close>

type_synonym dim = "nat option"
type_synonym shape = "dim list"

definition Input :: "dim list \<Rightarrow> shape" where
  "Input s = None # s"

definition conv_out_dim_sym :: "padding \<Rightarrow> nat \<Rightarrow> nat \<Rightarrow> dim \<Rightarrow> dim option" where
  "conv_out_dim_sym p k s d =
     (case d of
        None \<Rightarrow> if s = 0 \<or> k = 0 then None else Some None
      | Some n \<Rightarrow> map_option Some (conv_out_dim p k s n))"

text \<open>A convolution needs an input of rank 4 whose channel extent is known.\<close>

definition Conv2D_sym :: "conv2d \<Rightarrow> shape \<Rightarrow> error + shape" where
  "Conv2D_sym layer x =
     (case x of
        [b, h, w, Some c] \<Rightarrow>
          (case (conv_out_dim_sym (padding layer) (kernel_size layer) (strides layer) h,
                 conv_out_dim_sym (padding layer) (kernel_size layer) (strides layer) w) of
             (Some h', Some w') \<Rightarrow> Inr [b, h', w', Some (filters layer)]
           | _ \<Rightarrow> Inl ValueError)
      | _ \<Rightarrow> Inl ValueError)"

text \<open>
  \<^verbatim>\<open>tf.concat(ts, 3)\<close>: the extents of the first three axes must agree where both are
  known; the channel extents add up.
\<close>

definition merge_dim :: "dim \<Rightarrow> dim \<Rightarrow> dim option" where
  "merge_dim a b =
     (case (a, b) of
        (None, _) \<Rightarrow> Some b
      | (_, None) \<Rightarrow> Some a
      | (Some m, Some n) \<Rightarrow> if m = n then Some a else None)"

definition add_dim :: "dim \<Rightarrow> dim \<Rightarrow> dim" where
  "add_dim a b = (case (a, b) of (Some m, Some n) \<Rightarrow> Some (m + n) | _ \<Rightarrow> None)"

definition concat2_sym :: "shape \<Rightarrow> shape \<Rightarrow> error + shape" where
  "concat2_sym x y =
     (case (x, y) of
        ([b, h, w, c], [b', h', w', c']) \<Rightarrow>
          (case (merge_dim b b', merge_dim h h', merge_dim w w') of
             (Some b'', Some h'', Some w'') \<Rightarrow> Inr [b'', h'', w'', add_dim c c']
           | _ \<Rightarrow> Inl ValueError)
      | _ \<Rightarrow> Inl ValueError)"

fun concat3_sym :: "shape list \<Rightarrow> error + shape" where
  "concat3_sym [] = Inl ValueError"
| "concat3_sym (x # xs) = fold (\<lambda>y r. and_then r (\<lambda>acc. concat2_sym acc y)) xs (Inr x)"

text \<open>
  \<^verbatim>\<open>x + y\<close> on symbolic tensors of the same rank: an unknown extent against 1 stays
  unknown, against a larger extent it takes that extent.
\<close>

definition bdim_sym :: "dim \<Rightarrow> dim \<Rightarrow> dim option" where
  "bdim_sym a b =
     (case (a, b) of
        (Some m, Some n) \<Rightarrow> map_option Some (bdim m n)
      | (None, Some n) \<Rightarrow> Some (if n = 1 then None else Some n)
      | (Some m, None) \<Rightarrow> Some (if m = 1 then None else Some m)
      | (None, None) \<Rightarrow> Some None)"

fun add_sym :: "shape \<Rightarrow> shape \<Rightarrow> error + shape" where
  "add_sym [] [] = Inr []"
| "add_sym (a # x) (b # y) =
     (case bdim_sym a b of
        None \<Rightarrow> Inl ValueError
      | Some d \<Rightarrow> and_then (add_sym x y) (\<lambda>r. Inr (d # r)))"
| "add_sym x y = Inl ValueError"

text \<open>\<^verbatim>\<open>tf.image.resize(t, [h, w], method='nearest')\<close> on an image batch.\<close>

definition resize_sym :: "shape \<Rightarrow> dim \<Rightarrow> dim \<Rightarrow> error + shape" where
  "resize_sym x h w = (case x of [b, _, _, c] \<Rightarrow> Inr [b, h, w, c] | _ \<Rightarrow> Inl ValueError)"

text \<open>\<^verbatim>\<open>tf.shape(t)[i]\<close> and the product of an extent with a Python integer.\<close>

definition shape_dim :: "shape \<Rightarrow> nat \<Rightarrow> dim" where
  "shape_dim x i = (if i < length x then x ! i else None)"

definition dim_times :: "dim \<Rightarrow> nat \<Rightarrow> dim" where
  "dim_times d k = map_option (\<lambda>n. n * k) d"

text \<open>The shape of a concrete tensor as a symbolic one: every extent is known.\<close>

definition sym_of :: "tensor \<Rightarrow> shape" where
  "sym_of t = [Some (batch t), Some (height t), Some (width t), Some (chans t)]"

text \<open>The two blocks on a symbolic tensor: the same statements as in their \<^verbatim>\<open>call\<close>.\<close>

definition ResDenseBlock_5C_sym :: "rdb5c \<Rightarrow> shape \<Rightarrow> error + shape" where
  "ResDenseBlock_5C_sym self x =
     and_then (Conv2D_sym (conv1 self) x) (\<lambda>x1.
     and_then (concat3_sym [x, x1]) (\<lambda>c2.
     and_then (Conv2D_sym (conv2 self) c2) (\<lambda>x2.
     and_then (concat3_sym [x, x1, x2]) (\<lambda>c3.
     and_then (Conv2D_sym (conv3 self) c3) (\<lambda>x3.
     and_then (concat3_sym [x, x1, x2, x3]) (\<lambda>c4.
     and_then (Conv2D_sym (conv4 self) c4) (\<lambda>x4.
     and_then (concat3_sym [x, x1, x2, x3, x4]) (\<lambda>c5.
     and_then (Conv2D_sym (conv5 self) c5) (\<lambda>x5.
     add_sym x5 x)))))))))"

definition ResInResDenseBlock_sym :: "rrdb \<Rightarrow> shape \<Rightarrow> error + shape" where
  "ResInResDenseBlock_sym self x =
     and_then (ResDenseBlock_5C_sym (rdb_1 self) x) (\<lambda>out.
     and_then (ResDenseBlock_5C_sym (rdb_2 self) out) (\<lambda>out.
     and_then (ResDenseBlock_5C_sym (rdb_3 self) out) (\<lambda>out.
     add_sym out x)))"

text \<open>\<^verbatim>\<open>tf.keras.Sequential\<close> of blocks: each block is applied to the result of the one before.\<close>

definition Sequential_sym :: "rrdb list \<Rightarrow> shape \<Rightarrow> error + shape" where
  "Sequential_sym blocks x =
     fold (\<lambda>blk r. and_then r (ResInResDenseBlock_sym blk)) blocks (Inr x)"

section \<open>Generator\<close>

text \<open>
  What \<^verbatim>\<open>Model(inputs, out)\<close> records of a model here: the shapes of its input and of its
  output.
\<close>

record model =
  inputs :: shape
  outputs :: shape

text \<open>
  The two partial applications of \<^verbatim>\<open>RRDB_Model\<close>. \<^verbatim>\<open>rrdb_f\<close> leaves
  \<^verbatim>\<open>res_beta\<close> at its default 0.2; the names of the blocks are not kept.
\<close>

definition rrdb_f :: "nat \<Rightarrow> nat \<Rightarrow> fval \<Rightarrow> rrdb" where
  "rrdb_f nf gc wd = ResInResDenseBlock nf gc (Fin (2 / 10)) wd"

definition conv_f :: "fval \<Rightarrow> nat \<Rightarrow> activation option \<Rightarrow> string \<Rightarrow> conv2d" where
  "conv_f wd f act nm =
     \<lparr>filters = f, kernel_size = 3, strides = 1, padding = Same, use_bias = True,
      activation = act, kernel_initializer = kernel_init 1 None,
      kernel_regularizer = Some (regularizer wd), name = Some nm\<rparr>"

text \<open>
  Lines 82 to 108 of the module, from the input tensor \<open>x\<close> to \<^verbatim>\<open>out\<close>:
  \<^verbatim>\<open>
  fea = conv_f(filters=nf, name='conv_first')(x)
  fea_rrdb = rrdb_truck_f(fea)
  trunck = conv_f(filters=nf, name='conv_trunk')(fea_rrdb)
  fea = fea + trunck
  size_fea_h = tf.shape(fea)[1] if size is None else size
  size_fea_w = tf.shape(fea)[2] if size is None else size
  fea_resize = tf.image.resize(fea, [size_fea_h * 2, size_fea_w * 2], method='nearest')
  fea = conv_f(filters=nf, activation=gelu_f(), name='upconv_1')(fea_resize)
  fea_resize = tf.image.resize(fea, [size_fea_h * 4, size_fea_w * 4], method='nearest')
  fea = conv_f(filters=nf, activation=gelu_f(), name='upconv_2')(fea_resize)
  fea = conv_f(filters=nf, activation=gelu_f(), name='conv_hr')(fea)
  out = conv_f(filters=channels, name='conv_last')(fea)
  \<close>
\<close>

definition RRDB_graph ::
  "dim \<Rightarrow> nat \<Rightarrow> nat \<Rightarrow> nat \<Rightarrow> nat \<Rightarrow> fval \<Rightarrow> shape \<Rightarrow> error + shape" where
  "RRDB_graph sz channels nf nb gc wd x =
     (let rrdb_truck_f = map (\<lambda>i. rrdb_f nf gc wd) [0..<nb]
      in and_then (Conv2D_sym (conv_f wd nf None ''conv_first'') x) (\<lambda>fea.
         and_then (Sequential_sym rrdb_truck_f fea) (\<lambda>fea_rrdb.
         and_then (Conv2D_sym (conv_f wd nf None ''conv_trunk'') fea_rrdb) (\<lambda>trunck.
         and_then (add_sym fea trunck) (\<lambda>fea.
         let size_fea_h = (if sz = None then shape_dim fea 1 else sz);
             size_fea_w = (if sz = None then shape_dim fea 2 else sz)
         in and_then (resize_sym fea (dim_times size_fea_h 2) (dim_times size_fea_w 2))
              (\<lambda>fea_resize.
            and_then (Conv2D_sym (conv_f wd nf (Some GELU) ''upconv_1'') fea_resize) (\<lambda>fea.
            and_then (resize_sym fea (dim_times size_fea_h 4) (dim_times size_fea_w 4))
              (\<lambda>fea_resize.
            and_then (Conv2D_sym (conv_f wd nf (Some GELU) ''upconv_2'') fea_resize) (\<lambda>fea.
            and_then (Conv2D_sym (conv_f wd nf (Some GELU) ''conv_hr'') fea) (\<lambda>fea.
            Conv2D_sym (conv_f wd channels None ''conv_last'') fea))))))))))"

text \<open>
  \<^verbatim>\<open>def RRDB_Model(size, channels, cfg_net, gc=32, wd=0., name='RRDB_model')\<close>: its first
  statement reads \<^verbatim>\<open>cfg_net['nf']\<close> and then \<^verbatim>\<open>cfg_net['nb']\<close>; the graph is built
  on \<^verbatim>\<open>Input([size, size, channels])\<close>.
\<close>

definition RRDB_Model ::
  "dim \<Rightarrow> nat \<Rightarrow> (string \<rightharpoonup> nat) \<Rightarrow> nat \<Rightarrow> fval \<Rightarrow> error + model" where
  "RRDB_Model sz channels cfg_net gc wd =
     (case cfg_net ''nf'' of
        None \<Rightarrow> Inl (KeyError ''nf'')
      | Some nf \<Rightarrow>
     (case cfg_net ''nb'' of
        None \<Rightarrow> Inl (KeyError ''nb'')
      | Some nb \<Rightarrow>
          (let x = Input [sz, sz, Some channels]
           in and_then (RRDB_graph sz channels nf nb gc wd x) (\<lambda>out.
              Inr \<lparr>inputs = x, outputs = out\<rparr>))))"

section \<open>Discriminator\<close>

record batchnorm =
  bn_axis :: int
  bn_momentum :: real
  bn_epsilon :: real
  bn_center :: bool
  bn_scale :: bool
  bn_name :: "string option"

text \<open>The defaults of \<^verbatim>\<open>BatchNormalization.__init__\<close>.\<close>

definition BatchNormalization :: "string option \<Rightarrow> batchnorm" where
  "BatchNormalization nm =
     \<lparr>bn_axis = - 1, bn_momentum = 9 / 10, bn_epsilon = 1 / 100000,
      bn_center = True, bn_scale = True, bn_name = nm\<rparr>"

record dense =
  units :: nat
  dense_kernel_regularizer :: "regularizer option"
  dense_name :: "string option"

datatype layer =
    Conv2D_layer conv2d
  | BatchNormalization_layer batchnorm
  | GELU_layer
  | GlobalAveragePooling2D_layer
  | Dense_layer dense

fun layer_sym :: "layer \<Rightarrow> shape \<Rightarrow> error + shape" where
  "layer_sym (Conv2D_layer c) x = Conv2D_sym c x"
| "layer_sym (BatchNormalization_layer b) x = Inr x"
| "layer_sym GELU_layer x = Inr x"
| "layer_sym GlobalAveragePooling2D_layer x =
     (case x of [b, _, _, c] \<Rightarrow> Inr [b, c] | _ \<Rightarrow> Inl ValueError)"
| "layer_sym (Dense_layer d) x =
     (case rev x of
        Some c # r \<Rightarrow> if r = [] then Inl ValueError else Inr (rev r @ [Some (units d)])
      | _ \<Rightarrow> Inl ValueError)"

text \<open>The three partial applications of \<^verbatim>\<open>DiscriminatorVGG128\<close>.\<close>

definition conv_k3s1_f :: "fval \<Rightarrow> nat \<Rightarrow> bool \<Rightarrow> string \<Rightarrow> layer" where
  "conv_k3s1_f wd f bias nm =
     Conv2D_layer \<lparr>filters = f, kernel_size = 3, strides = 1, padding = Same,
                   use_bias = bias, activation = None, kernel_initializer = kernel_init 1 None,
                   kernel_regularizer = Some (regularizer wd), name = Some nm\<rparr>"

definition conv_k4s2_f :: "fval \<Rightarrow> nat \<Rightarrow> bool \<Rightarrow> string \<Rightarrow> layer" where
  "conv_k4s2_f wd f bias nm =
     Conv2D_layer \<lparr>filters = f, kernel_size = 4, strides = 2, padding = Same,
                   use_bias = bias, activation = None, kernel_initializer = kernel_init 1 None,
                   kernel_regularizer = Some (regularizer wd), name = Some nm\<rparr>"

definition dense_f :: "fval \<Rightarrow> nat \<Rightarrow> string \<Rightarrow> layer" where
  "dense_f wd u nm =
     Dense_layer \<lparr>units = u, dense_kernel_regularizer = Some (regularizer wd),
                  dense_name = Some nm\<rparr>"

text \<open>
  The layers that lines 130 to 156 apply to \<open>x\<close>, one after the other, in the order of
  the module.
\<close>

definition DiscriminatorVGG128_layers :: "nat \<Rightarrow> fval \<Rightarrow> layer list" where
  "DiscriminatorVGG128_layers nf wd =
     [conv_k3s1_f wd nf True ''conv0_0'',
      conv_k4s2_f wd nf False ''conv0_1'',
      BatchNormalization_layer (BatchNormalization (Some ''bn0_1'')),

      conv_k3s1_f wd (nf * 2) False ''conv1_0'',
      GELU_layer,
      conv_k4s2_f wd (nf * 2) False ''conv1_1'',
      BatchNormalization_layer (BatchNormalization (Some ''bn1_1'')),

      conv_k3s1_f wd (nf * 4) False ''conv2_0'',
      GELU_layer,
      conv_k4s2_f wd (nf * 4) False ''conv2_1'',
      BatchNormalization_layer (BatchNormalization (Some ''bn2_1'')),

      conv_k3s1_f wd (nf * 8) False ''conv3_0'',
      GELU_layer,
      conv_k4s2_f wd (nf * 8) False ''conv3_1'',
      BatchNormalization_layer (BatchNormalization (Some ''bn3_1'')),

      conv_k3s1_f wd (nf * 8) False ''conv4_0'',
      GELU_layer,
      conv_k4s2_f wd (nf * 8) False ''conv4_1'',
      BatchNormalization_layer (BatchNormalization (Some ''bn4_1'')),

      GlobalAveragePooling2D_layer,
      dense_f wd 1 ''linear1'']"

definition apply_layers :: "layer list \<Rightarrow> shape \<Rightarrow> error + shape" where
  "apply_layers ls x = fold (\<lambda>l r. and_then r (layer_sym l)) ls (Inr x)"

text \<open>
  \<^verbatim>\<open>def DiscriminatorVGG128(size, channels, nf=64, wd=0., name='Discriminator_VGG_128')\<close>,
  built on \<^verbatim>\<open>Input(shape=(size, size, channels))\<close>.
\<close>

definition DiscriminatorVGG128 :: "dim \<Rightarrow> nat \<Rightarrow> nat \<Rightarrow> fval \<Rightarrow> error + model" where
  "DiscriminatorVGG128 sz channels nf wd =
     (let x = Input [sz, sz, Some channels]
      in and_then (apply_layers (DiscriminatorVGG128_layers nf wd) x) (\<lambda>out.
         Inr \<lparr>inputs = x, outputs = out\<rparr>))"

section \<open>The blocks as the specification words them\<close>

text \<open>
  The specification gives the forward contract of the residual dense block as
  \<^verbatim>\<open>
  x1 = conv1(x)
  x2 = conv2(concat(x, x1))
  x3 = conv3(concat(x, x1, x2))
  x4 = conv4(concat(x, x1, x2, x3))
  x5 = conv5(concat(x, x1, x2, x3, x4))
  output = x + res_beta * x5
  \<close>
  with convolutions that keep the spatial extents and produce \<open>gc, gc, gc, gc, nf\<close>
  channels, and the contract of the residual-in-residual block as
  \<^verbatim>\<open>output = x + res_beta * rdb_3(rdb_2(rdb_1(x)))\<close>. The definitions of this section
  follow these words, not the code: they check no shape and raise no error.
\<close>

definition conv_same :: "nat \<Rightarrow> response \<Rightarrow> tensor \<Rightarrow> tensor" where
  "conv_same f K t =
     \<lparr>batch = batch t, height = height t, width = width t, chans = f,
      elems = map (K t) [0..<batch t * height t * width t * f]\<rparr>"

definition channel_concat :: "tensor \<Rightarrow> tensor list \<Rightarrow> tensor" where
  "channel_concat t ts =
     \<lparr>batch = batch t, height = height t, width = width t,
      chans = chans t + sum_list (map chans ts),
      elems = concat (map (\<lambda>p. pixel t p @ concat (map (\<lambda>u. pixel u p) ts))
                          [0..<batch t * height t * width t])\<rparr>"

definition residual :: "tensor \<Rightarrow> fval \<Rightarrow> tensor \<Rightarrow> tensor" where
  "residual x beta y = x\<lparr>elems := map2 (\<lambda>a b. fadd a (fmul beta b)) (elems x) (elems y)\<rparr>"

definition rdb5c_x5 :: "nat \<Rightarrow> nat \<Rightarrow> rdb5c_weights \<Rightarrow> tensor \<Rightarrow> tensor" where
  "rdb5c_x5 nf gc W x =
     (let x1 = conv_same gc (w1 W) x;
          x2 = conv_same gc (w2 W) (channel_concat x [x1]);
          x3 = conv_same gc (w3 W) (channel_concat x [x1, x2]);
          x4 = conv_same gc (w4 W) (channel_concat x [x1, x2, x3])
      in conv_same nf (w5 W) (channel_concat x [x1, x2, x3, x4]))"

definition rdb5c_spec :: "nat \<Rightarrow> nat \<Rightarrow> fval \<Rightarrow> rdb5c_weights \<Rightarrow> tensor \<Rightarrow> tensor" where
  "rdb5c_spec nf gc res_beta W x = residual x res_beta (rdb5c_x5 nf gc W x)"

definition rrdb_spec :: "nat \<Rightarrow> nat \<Rightarrow> fval \<Rightarrow> rrdb_weights \<Rightarrow> tensor \<Rightarrow> tensor" where
  "rrdb_spec nf gc res_beta W x =
     residual x res_beta
       (rdb5c_spec nf gc res_beta (rdb_3_w W)
         (rdb5c_spec nf gc res_beta (rdb_2_w W)
           (rdb5c_spec nf gc res_beta (rdb_1_w W) x)))"

text \<open>
  The stages of the discriminator as the specification words them: stage 0 is a 3x3
  convolution with bias, a 4x4 convolution of stride 2 without bias and a batch
  normalisation; each later stage is a 3x3 convolution without bias, a GELU, a 4x4
  convolution of stride 2 without bias and a batch normalisation. The width of stage
  \<open>i\<close> is \<open>nf\<close> times \<open>2 ^ i\<close>, capped at \<open>nf * 8\<close>. The digit of the stage is part of
  the names of its layers.
\<close>

definition stage_width :: "nat \<Rightarrow> nat \<Rightarrow> nat" where
  "stage_width nf i = nf * min (2 ^ i) 8"

definition stage_digit :: "nat \<Rightarrow> char" where
  "stage_digit i = ''01234'' ! i"

definition stage_conv :: "fval \<Rightarrow> nat \<Rightarrow> nat \<Rightarrow> nat \<Rightarrow> bool \<Rightarrow> string \<Rightarrow> layer" where
  "stage_conv wd k s f bias nm =
     Conv2D_layer \<lparr>filters = f, kernel_size = k, strides = s, padding = Same,
                   use_bias = bias, activation = None, kernel_initializer = kernel_init 1 None,
                   kernel_regularizer = Some (regularizer wd), name = Some nm\<rparr>"

definition stage_bn :: "nat \<Rightarrow> layer" where
  "stage_bn i = BatchNormalization_layer
                  (BatchNormalization (Some (''bn'' @ [stage_digit i] @ ''_1'')))"

definition stage0_spec :: "nat \<Rightarrow> fval \<Rightarrow> layer list" where
  "stage0_spec nf wd =
     [stage_conv wd 3 1 nf True ''conv0_0'',
      stage_conv wd 4 2 nf False ''conv0_1'',
      stage_bn 0]"

definition stage_spec :: "nat \<Rightarrow> fval \<Rightarrow> nat \<Rightarrow> layer list" where
  "stage_spec nf wd i =
     [stage_conv wd 3 1 (stage_width nf i) False (''conv'' @ [stage_digit i] @ ''_0''),
      GELU_layer,
      stage_conv wd 4 2 (stage_width nf i) False (''conv'' @ [stage_digit i] @ ''_1''),
      stage_bn i]"

text \<open>A layer that halves the spatial extents, and a layer that applies an activation.\<close>

fun is_stride2 :: "layer \<Rightarrow> bool" where
  "is_stride2 (Conv2D_layer c) = (strides c = 2)"
| "is_stride2 l = False"

fun is_activated :: "layer \<Rightarrow> bool" where
  "is_activated (Conv2D_layer c) = (activation c \<noteq> None)"
| "is_activated GELU_layer = True"
| "is_activated l = False"

section \<open>Sample inputs\<close>

text \<open>
  A batch of one image of one pixel and one channel, and layers whose response is the
  same value at every position, whatever the input.
\<close>

definition unit_image :: "fval \<Rightarrow> tensor" where
  "unit_image v = \<lparr>batch = 1, height = 1, width = 1, chans = 1, elems = [v]\<rparr>"

definition constant_response :: "fval \<Rightarrow> response" where
  "constant_response v x i = v"

definition constant_weights :: "fval \<Rightarrow> rdb5c_weights" where
  "constant_weights v =
     \<lparr>w1 = constant_response (Fin 1), w2 = constant_response (Fin 1),
      w3 = constant_response (Fin 1), w4 = constant_response (Fin 1),
      w5 = constant_response v\<rparr>"

definition constant_rrdb_weights :: "fval \<Rightarrow> rrdb_weights" where
  "constant_rrdb_weights v =
     \<lparr>rdb_1_w = constant_weights v, rdb_2_w = constant_weights v,
      rdb_3_w = constant_weights v\<rparr>"

section \<open>Arithmetic of entries\<close>

lemma fmul_commute: "fmul a b = fmul b a"
  by (cases a; cases b) (simp_all add: mult.commute)

lemma fadd_commute: "fadd a b = fadd b a"
  by (cases a; cases b) (simp_all add: add.commute)

lemma fmul_zero_finite: "is_finite v \<Longrightarrow> fmul v (Fin 0) = Fin 0"
  by (cases v) simp_all

lemma fadd_zero_left: "fadd (Fin 0) v = v"
  by (cases v) simp_all

section \<open>Adding tensors of one shape\<close>

text \<open>
  A position \<open>q\<close> of a tensor, split into its four coordinates and put together again,
  is \<open>q\<close>; so a sum of two well-formed tensors of the same shape is the sum entry by
  entry.
\<close>

lemma unravel_index:
  fixes q :: nat
  shows "((q div (c * w * h) * h + q div (c * w) mod h) * w + q div c mod w) * c + q mod c = q"
proof -
  have a: "q div (c * w * h) = q div (c * w) div h"
    by (simp add: div_mult2_eq)
  have b: "q div (c * w) = q div c div w"
    by (simp add: div_mult2_eq)
  have "q div (c * w) div h * h + q div (c * w) mod h = q div (c * w)"
    by simp
  then have "(q div (c * w * h) * h + q div (c * w) mod h) * w + q div c mod w = q div c"
    using a b by simp
  then show ?thesis by simp
qed

lemma bcoord_id: "c < extent \<Longrightarrow> bcoord extent c = c"
  by (simp add: bcoord_def)

lemma bget_in_range:
  assumes "q < batch t * height t * width t * chans t"
  shows "bget t (q div (chans t * width t * height t))
                (q div (chans t * width t) mod height t)
                (q div chans t mod width t) (q mod chans t) = elems t ! q"
proof -
  from assms have pos: "0 < batch t" "0 < height t" "0 < width t" "0 < chans t"
    by (auto intro: Nat.gr0I)
  have n: "q div (chans t * width t * height t) < batch t"
    using assms by (simp add: less_mult_imp_div_less mult.commute mult.left_commute)
  show ?thesis
    unfolding bget_def using pos n
    by (simp add: bcoord_id unravel_index)
qed

lemma tensor_add_same_shape:
  assumes "shape_of x = shape_of y" "wf_tensor x" "wf_tensor y"
  shows "tensor_add x y = Inr (x\<lparr>elems := map2 fadd (elems x) (elems y)\<rparr>)"
proof -
  from assms have s: "batch y = batch x" "height y = height x" "width y = width x"
      "chans y = chans x"
    by (simp_all add: shape_of_def)
  from assms s have l: "length (elems x) = numel x" "length (elems y) = numel x"
    by (simp_all add: wf_tensor_def numel_def)
  let ?f = "\<lambda>q. fadd (bget x (q div (chans x * width x * height x))
                (q div (chans x * width x) mod height x)
                (q div chans x mod width x) (q mod chans x))
              (bget y (q div (chans x * width x * height x))
                (q div (chans x * width x) mod height x)
                (q div chans x mod width x) (q mod chans x))"
  have "map ?f [0..<numel x] = map2 fadd (elems x) (elems y)"
  proof (rule nth_equalityI)
    show "length (map ?f [0..<numel x]) = length (map2 fadd (elems x) (elems y))"
      using l by simp
  next
    fix i assume "i < length (map ?f [0..<numel x])"
    then have i: "i < numel x" by simp
    have bx: "bget x (i div (chans x * width x * height x))
                (i div (chans x * width x) mod height x)
                (i div chans x mod width x) (i mod chans x) = elems x ! i"
      using i bget_in_range[of i x] by (simp add: numel_def)
    have by': "bget y (i div (chans x * width x * height x))
                (i div (chans x * width x) mod height x)
                (i div chans x mod width x) (i mod chans x) = elems y ! i"
      using i bget_in_range[of i y] s by (simp add: numel_def)
    show "map ?f [0..<numel x] ! i = map2 fadd (elems x) (elems y) ! i"
      using i l bx by' by simp
  qed
  then show ?thesis
    using s by (simp add: tensor_add_def bdim_def Let_def numel_def)
qed

lemma scaled_residual:
  assumes "shape_of y = shape_of x" "wf_tensor x" "wf_tensor y"
  shows "tensor_add (mul_scalar y beta) x = Inr (residual x beta y)"
proof -
  have sh: "shape_of (mul_scalar y beta) = shape_of x"
    using assms(1) by (simp add: mul_scalar_def shape_of_def)
  have wf: "wf_tensor (mul_scalar y beta)"
    using assms(3) by (simp add: mul_scalar_def wf_tensor_def numel_def)
  have e: "map2 fadd (map (\<lambda>v. fmul v beta) (elems y)) (elems x)
         = map2 (\<lambda>a b. fadd a (fmul beta b)) (elems x) (elems y)"
    by (rule nth_equalityI) (simp_all add: fadd_commute fmul_commute)
  have "tensor_add (mul_scalar y beta) x
        = Inr ((mul_scalar y beta)\<lparr>elems := map2 fadd (elems (mul_scalar y beta)) (elems x)\<rparr>)"
    by (rule tensor_add_same_shape[OF sh wf assms(2)])
  also have "(mul_scalar y beta)\<lparr>elems := map2 fadd (elems (mul_scalar y beta)) (elems x)\<rparr>
        = residual x beta y"
    using assms(1) e by (simp add: mul_scalar_def residual_def shape_of_def tensor.equality)
  finally show ?thesis .
qed

lemma residual_fields [simp]:
  "batch (residual x b y) = batch x" "height (residual x b y) = height x"
  "width (residual x b y) = width x" "chans (residual x b y) = chans x"
  by (simp_all add: residual_def)

lemma residual_wf:
  assumes "wf_tensor x" "wf_tensor y" "shape_of y = shape_of x"
  shows "wf_tensor (residual x b y)"
  using assms by (simp add: wf_tensor_def residual_def numel_def shape_of_def)

lemma same_shape_same_length:
  "wf_tensor x \<Longrightarrow> wf_tensor y \<Longrightarrow> shape_of y = shape_of x
   \<Longrightarrow> length (elems y) = length (elems x)"
  by (simp add: wf_tensor_def numel_def shape_of_def)

text \<open>With a zero coefficient a finite branch leaves every entry of \<open>x\<close> as it is.\<close>

lemma residual_zero:
  assumes "all_finite y" "length (elems y) = length (elems x)"
  shows "residual x (Fin 0) y = x"
proof -
  have "map2 (\<lambda>a b. fadd a (fmul (Fin 0) b)) (elems x) (elems y) = elems x"
  proof (rule nth_equalityI)
    show "length (map2 (\<lambda>a b. fadd a (fmul (Fin 0) b)) (elems x) (elems y)) = length (elems x)"
      using assms(2) by simp
  next
    fix i assume "i < length (map2 (\<lambda>a b. fadd a (fmul (Fin 0) b)) (elems x) (elems y))"
    then have i: "i < length (elems x)" "i < length (elems y)" by simp_all
    then have "is_finite (elems y ! i)"
      using assms(1) by (simp add: all_finite_def list_all_length)
    then have "fmul (Fin 0) (elems y ! i) = Fin 0"
      by (simp add: fmul_commute[of "Fin 0"] fmul_zero_finite)
    then show "map2 (\<lambda>a b. fadd a (fmul (Fin 0) b)) (elems x) (elems y) ! i = elems x ! i"
      using i by (simp add: fadd_commute[of _ "Fin 0"] fadd_zero_left)
  qed
  then show ?thesis by (simp add: residual_def)
qed

section \<open>The blocks compute what the specification words\<close>

lemma conv_same_fields [simp]:
  "batch (conv_same f K t) = batch t" "height (conv_same f K t) = height t"
  "width (conv_same f K t) = width t" "chans (conv_same f K t) = f"
  by (simp_all add: conv_same_def)

lemma conv_same_wf: "wf_tensor (conv_same f K t)"
  by (simp add: conv_same_def wf_tensor_def numel_def)

lemma channel_concat_fields [simp]:
  "batch (channel_concat t ts) = batch t" "height (channel_concat t ts) = height t"
  "width (channel_concat t ts) = width t"
  "chans (channel_concat t ts) = chans t + sum_list (map chans ts)"
  by (simp_all add: channel_concat_def)

lemma Conv2D_call_same:
  assumes "padding layer = Same" "kernel_size layer = 3" "strides layer = 1"
  shows "Conv2D_call layer K t = Inr (conv_same (filters layer) K t)"
  using assms by (simp add: Conv2D_call_def conv_out_dim_def conv_same_def)

lemma concat3_ok:
  assumes "list_all (same_pixels t) ts"
  shows "concat3 (t # ts) = Inr (channel_concat t ts)"
  using assms by (simp add: channel_concat_def)

lemma rdb_layers:
  "padding (conv1 (ResDenseBlock_5C nf gc b wd)) = Same"
  "padding (conv2 (ResDenseBlock_5C nf gc b wd)) = Same"
  "padding (conv3 (ResDenseBlock_5C nf gc b wd)) = Same"
  "padding (conv4 (ResDenseBlock_5C nf gc b wd)) = Same"
  "padding (conv5 (ResDenseBlock_5C nf gc b wd)) = Same"
  "kernel_size (conv1 (ResDenseBlock_5C nf gc b wd)) = 3"
  "kernel_size (conv2 (ResDenseBlock_5C nf gc b wd)) = 3"
  "kernel_size (conv3 (ResDenseBlock_5C nf gc b wd)) = 3"
  "kernel_size (conv4 (ResDenseBlock_5C nf gc b wd)) = 3"
  "kernel_size (conv5 (ResDenseBlock_5C nf gc b wd)) = 3"
  "strides (conv1 (ResDenseBlock_5C nf gc b wd)) = 1"
  "strides (conv2 (ResDenseBlock_5C nf gc b wd)) = 1"
  "strides (conv3 (ResDenseBlock_5C nf gc b wd)) = 1"
  "strides (conv4 (ResDenseBlock_5C nf gc b wd)) = 1"
  "strides (conv5 (ResDenseBlock_5C nf gc b wd)) = 1"
  "filters (conv1 (ResDenseBlock_5C nf gc b wd)) = gc"
  "filters (conv2 (ResDenseBlock_5C nf gc b wd)) = gc"
  "filters (conv3 (ResDenseBlock_5C nf gc b wd)) = gc"
  "filters (conv4 (ResDenseBlock_5C nf gc b wd)) = gc"
  "filters (conv5 (ResDenseBlock_5C nf gc b wd)) = nf"
  "rdb_res_beta (ResDenseBlock_5C nf gc b wd) = b"
  by (simp_all add: ResDenseBlock_5C_def)

lemma rdb5c_x5_shape: "chans x = nf \<Longrightarrow> shape_of (rdb5c_x5 nf gc W x) = shape_of x"
  by (simp add: rdb5c_x5_def shape_of_def Let_def)

lemma rdb5c_x5_wf: "wf_tensor (rdb5c_x5 nf gc W x)"
  by (simp add: rdb5c_x5_def Let_def conv_same_wf)

lemma rdb5c_spec_shape: "shape_of (rdb5c_spec nf gc b W x) = shape_of x"
  by (simp add: rdb5c_spec_def shape_of_def)

lemma rdb5c_spec_chans [simp]: "chans (rdb5c_spec nf gc b W x) = chans x"
  by (simp add: rdb5c_spec_def)

lemma rdb5c_spec_wf:
  assumes "wf_tensor x" "chans x = nf"
  shows "wf_tensor (rdb5c_spec nf gc b W x)"
  unfolding rdb5c_spec_def
  by (rule residual_wf[OF assms(1) rdb5c_x5_wf rdb5c_x5_shape[OF assms(2)]])

lemma rrdb_spec_shape: "shape_of (rrdb_spec nf gc b W x) = shape_of x"
  by (simp add: rrdb_spec_def shape_of_def)

lemma rdb_call_spec:
  assumes "wf_tensor x" "chans x = nf"
  shows "ResDenseBlock_5C_call (ResDenseBlock_5C nf gc res_beta wd) W x
         = Inr (rdb5c_spec nf gc res_beta W x)"
proof -
  have "ResDenseBlock_5C_call (ResDenseBlock_5C nf gc res_beta wd) W x
        = tensor_add (mul_scalar (rdb5c_x5 nf gc W x) res_beta) x"
    by (simp add: ResDenseBlock_5C_call_def Conv2D_call_same rdb_layers and_then_def
          same_pixels_def rdb5c_x5_def Let_def concat3_ok del: concat3.simps)
  then show ?thesis
    using scaled_residual[OF rdb5c_x5_shape[OF assms(2)] assms(1) rdb5c_x5_wf]
    by (simp add: rdb5c_spec_def)
qed

lemma rrdb_layers:
  "rdb_1 (ResInResDenseBlock nf gc b wd) = ResDenseBlock_5C nf gc b wd"
  "rdb_2 (ResInResDenseBlock nf gc b wd) = ResDenseBlock_5C nf gc b wd"
  "rdb_3 (ResInResDenseBlock nf gc b wd) = ResDenseBlock_5C nf gc b wd"
  "rrdb_res_beta (ResInResDenseBlock nf gc b wd) = b"
  by (simp_all add: ResInResDenseBlock_def)

lemma rrdb_call_spec:
  assumes "wf_tensor x" "chans x = nf"
  shows "ResInResDenseBlock_call (ResInResDenseBlock nf gc res_beta wd) W x
         = Inr (rrdb_spec nf gc res_beta W x)"
proof -
  let ?o1 = "rdb5c_spec nf gc res_beta (rdb_1_w W) x"
  let ?o2 = "rdb5c_spec nf gc res_beta (rdb_2_w W) ?o1"
  let ?o3 = "rdb5c_spec nf gc res_beta (rdb_3_w W) ?o2"
  have wf1: "wf_tensor ?o1" and c1: "chans ?o1 = nf"
    using assms by (simp_all add: rdb5c_spec_wf)
  have wf2: "wf_tensor ?o2" and c2: "chans ?o2 = nf"
    using wf1 c1 by (simp_all add: rdb5c_spec_wf)
  have wf3: "wf_tensor ?o3"
    using wf2 c2 by (simp add: rdb5c_spec_wf)
  have sh: "shape_of ?o3 = shape_of x"
    by (simp add: rdb5c_spec_shape)
  have "ResInResDenseBlock_call (ResInResDenseBlock nf gc res_beta wd) W x
        = tensor_add (mul_scalar ?o3 res_beta) x"
    using assms wf1 c1 wf2 c2
    by (simp add: ResInResDenseBlock_call_def rrdb_layers and_then_def rdb_call_spec)
  then show ?thesis
    using scaled_residual[OF sh assms(1) wf3] by (simp add: rrdb_spec_def)
qed

text \<open>
  Claim C2. For every well-formed input \<open>x\<close> with \<open>nf\<close> channels, the call of a residual
  dense block returns what the specification words: \<open>x1 = conv1(x)\<close>, each later \<open>x\<close> the
  next convolution of the channel-axis concatenation of \<open>x\<close> and all earlier ones, and
  \<open>x + res_beta * x5\<close> as the result. The five convolutions have 3x3 kernels, same
  padding and a GELU activation, and \<open>gc, gc, gc, gc, nf\<close> filters.
\<close>

theorem ResDenseBlock_5C_call_dense:
  assumes "wf_tensor x" and "chans x = nf"
  shows "ResDenseBlock_5C_call (ResDenseBlock_5C nf gc res_beta wd) W x
           = Inr (rdb5c_spec nf gc res_beta W x)
         \<and> map filters (map (\<lambda>c. c (ResDenseBlock_5C nf gc res_beta wd))
                          [conv1, conv2, conv3, conv4, conv5]) = [gc, gc, gc, gc, nf]
         \<and> list_all (\<lambda>c. kernel_size (c (ResDenseBlock_5C nf gc res_beta wd)) = 3
                        \<and> padding (c (ResDenseBlock_5C nf gc res_beta wd)) = Same
                        \<and> activation (c (ResDenseBlock_5C nf gc res_beta wd)) = Some GELU)
                    [conv1, conv2, conv3, conv4, conv5]"
  using rdb_call_spec[OF assms] by (simp add: ResDenseBlock_5C_def)

text \<open>
  One pixel of value 1, four layers that answer 1 and a fifth that answers 5, with
  \<open>res_beta = 0.2\<close>: the block returns \<open>1 + 0.2 * 5 = 2\<close>.
\<close>

theorem ResDenseBlock_5C_call_dense_witness:
  "wf_tensor (unit_image (Fin 1)) \<and> chans (unit_image (Fin 1)) = 1
   \<and> ResDenseBlock_5C_call (ResDenseBlock_5C 1 1 (Fin (2 / 10)) (Fin 0))
        (constant_weights (Fin 5)) (unit_image (Fin 1))
     = Inr (unit_image (Fin 2))"
  using ResDenseBlock_5C_call_dense[of "unit_image (Fin 1)" 1 1 "Fin (2 / 10)" "Fin 0"
      "constant_weights (Fin 5)"]
  by (simp add: unit_image_def wf_tensor_def numel_def rdb5c_spec_def rdb5c_x5_def
      residual_def conv_same_def constant_weights_def constant_response_def Let_def)

text \<open>
  Claim C3. On every call of the batch normalisation layer the flag handed to the parent
  transform is the caller's flag and the layer's \<open>trainable\<close> flag together, with no flag
  taken as false; so a layer that is not trainable gives the same result for
  \<open>training=True\<close> and \<open>training=False\<close>.
\<close>

theorem BatchNormalization_call_gate:
  "BatchNormalization_call trainable super_call x None = super_call x False
   \<and> BatchNormalization_call trainable super_call x (Some t) = super_call x (t \<and> trainable)
   \<and> BatchNormalization_call False super_call x (Some True)
       = BatchNormalization_call False super_call x (Some False)"
  by (simp add: BatchNormalization_call_def)

text \<open>
  Claim C4. For every well-formed input \<open>x\<close> with \<open>nf\<close> channels, the call of a
  residual-in-residual block runs its three dense blocks one after the other and returns
  \<open>x + res_beta * rdb_3(rdb_2(rdb_1(x)))\<close>.
\<close>

theorem ResInResDenseBlock_call_nested:
  assumes "wf_tensor x" and "chans x = nf"
  shows "ResInResDenseBlock_call (ResInResDenseBlock nf gc res_beta wd) W x
           = Inr (residual x res_beta
                   (rdb5c_spec nf gc res_beta (rdb_3_w W)
                     (rdb5c_spec nf gc res_beta (rdb_2_w W)
                       (rdb5c_spec nf gc res_beta (rdb_1_w W) x))))"
  using rrdb_call_spec[OF assms] by (simp add: rrdb_spec_def)

text \<open>
  With the same pixel and layers, the dense blocks return 2, 3 and 4, and the outer
  residual gives \<open>1 + 0.2 * 4 = 1.8\<close>.
\<close>

theorem ResInResDenseBlock_call_nested_witness:
  "wf_tensor (unit_image (Fin 1)) \<and> chans (unit_image (Fin 1)) = 1
   \<and> ResInResDenseBlock_call (ResInResDenseBlock 1 1 (Fin (2 / 10)) (Fin 0))
        (constant_rrdb_weights (Fin 5)) (unit_image (Fin 1))
     = Inr (unit_image (Fin (18 / 10)))"
  using ResInResDenseBlock_call_nested[of "unit_image (Fin 1)" 1 1 "Fin (2 / 10)" "Fin 0"
      "constant_rrdb_weights (Fin 5)"]
  by (simp add: unit_image_def wf_tensor_def numel_def rdb5c_spec_def rdb5c_x5_def
      residual_def conv_same_def constant_weights_def constant_rrdb_weights_def
      constant_response_def Let_def)

text \<open>
  Claim C6. Both blocks preserve the shape: for every well-formed input with \<open>nf\<close>
  channels the call returns a tensor, and its batch, height, width and channel extents
  are those of the input.
\<close>

theorem blocks_preserve_shape:
  assumes "wf_tensor x" and "chans x = nf"
  shows "(\<exists>y. ResDenseBlock_5C_call (ResDenseBlock_5C nf gc res_beta wd) W x = Inr y
              \<and> shape_of y = shape_of x)
       \<and> (\<exists>y. ResInResDenseBlock_call (ResInResDenseBlock nf gc res_beta wd) W' x = Inr y
              \<and> shape_of y = shape_of x)"
  using rdb_call_spec[OF assms] rrdb_call_spec[OF assms]
  by (simp add: rdb5c_spec_shape rrdb_spec_shape)

theorem blocks_preserve_shape_witness:
  "wf_tensor (unit_image (Fin 1)) \<and> chans (unit_image (Fin 1)) = 1
   \<and> (\<exists>y. ResDenseBlock_5C_call (ResDenseBlock_5C 1 32 (Fin (2 / 10)) (Fin 0))
             (constant_weights (Fin 5)) (unit_image (Fin 1)) = Inr y
          \<and> shape_of y = (1, 1, 1, 1))
   \<and> (\<exists>y. ResInResDenseBlock_call (ResInResDenseBlock 1 32 (Fin (2 / 10)) (Fin 0))
             (constant_rrdb_weights (Fin 5)) (unit_image (Fin 1)) = Inr y
          \<and> shape_of y = (1, 1, 1, 1))"
  using blocks_preserve_shape[of "unit_image (Fin 1)" 1 32 "Fin (2 / 10)" "Fin 0"
      "constant_weights (Fin 5)" "constant_rrdb_weights (Fin 5)"]
  by (simp add: unit_image_def wf_tensor_def numel_def shape_of_def)

section \<open>Zero coefficients\<close>




text \<open>
  Claim C10, as stated, fails: with \<open>res_beta = 0\<close> the blocks are not the identity
  whatever the weights. When the fifth convolution answers infinity, the branch times
  zero is NaN and so is the result, for the dense block and for the block of three; and
  with finite layers the block of three turns an infinite entry of \<open>x\<close> into NaN, since
  its branch is \<open>x\<close> itself.
\<close>

theorem res_beta_zero_counterexample:
  "ResDenseBlock_5C_call (ResDenseBlock_5C 1 1 (Fin 0) (Fin 0)) (constant_weights PInf)
      (unit_image (Fin 1)) = Inr (unit_image NaN)
   \<and> unit_image NaN \<noteq> unit_image (Fin 1)
   \<and> ResInResDenseBlock_call (ResInResDenseBlock 1 1 (Fin 0) (Fin 0))
      (constant_rrdb_weights PInf) (unit_image (Fin 1)) = Inr (unit_image NaN)
   \<and> ResInResDenseBlock_call (ResInResDenseBlock 1 1 (Fin 0) (Fin 0))
      (constant_rrdb_weights (Fin 5)) (unit_image PInf) = Inr (unit_image NaN)
   \<and> unit_image NaN \<noteq> unit_image PInf"
proof -
  have wf: "wf_tensor (unit_image v)" "chans (unit_image v) = 1" for v
    by (simp_all add: unit_image_def wf_tensor_def numel_def)
  have a: "rdb5c_spec 1 1 (Fin 0) (constant_weights PInf) (unit_image v) = unit_image NaN"
    if "v = Fin 1 \<or> v = NaN" for v
    using that
    by (auto simp add: unit_image_def rdb5c_spec_def rdb5c_x5_def residual_def conv_same_def
        constant_weights_def constant_response_def Let_def inf_times_def)
  have b: "rdb5c_spec 1 1 (Fin 0) (constant_weights (Fin 5)) (unit_image PInf)
           = unit_image PInf"
    by (simp add: unit_image_def rdb5c_spec_def rdb5c_x5_def residual_def conv_same_def
        constant_weights_def constant_response_def Let_def)
  have c: "residual (unit_image (Fin 1)) (Fin 0) (unit_image NaN) = unit_image NaN"
    "residual (unit_image PInf) (Fin 0) (unit_image PInf) = unit_image NaN"
    by (simp_all add: unit_image_def residual_def inf_times_def)
  have r1: "ResDenseBlock_5C_call (ResDenseBlock_5C 1 1 (Fin 0) (Fin 0))
              (constant_weights PInf) (unit_image (Fin 1)) = Inr (unit_image NaN)"
    using rdb_call_spec[OF wf(1)[of "Fin 1"] wf(2)[of "Fin 1"]] by (simp add: a del: One_nat_def)
  have r2: "ResInResDenseBlock_call (ResInResDenseBlock 1 1 (Fin 0) (Fin 0))
              (constant_rrdb_weights PInf) (unit_image (Fin 1)) = Inr (unit_image NaN)"
    using rrdb_call_spec[OF wf(1)[of "Fin 1"] wf(2)[of "Fin 1"]]
    by (simp add: a c rrdb_spec_def constant_rrdb_weights_def del: One_nat_def)
  have r3: "ResInResDenseBlock_call (ResInResDenseBlock 1 1 (Fin 0) (Fin 0))
              (constant_rrdb_weights (Fin 5)) (unit_image PInf) = Inr (unit_image NaN)"
    using rrdb_call_spec[OF wf(1)[of PInf] wf(2)[of PInf]]
    by (simp add: b c rrdb_spec_def constant_rrdb_weights_def del: One_nat_def)
  have ne: "unit_image NaN \<noteq> unit_image (Fin 1)" "unit_image NaN \<noteq> unit_image PInf"
    by (simp_all add: unit_image_def)
  show ?thesis
    using r1 r2 r3 ne by simp
qed

text \<open>
  Claim C10, amended. With \<open>res_beta = 0\<close> and a well-formed input \<open>x\<close> with \<open>nf\<close>
  channels, the dense block returns \<open>x\<close> whenever every entry of its \<open>x5\<close> is finite,
  and the block of three returns \<open>x\<close> whenever every entry of \<open>x\<close> and of the \<open>x5\<close>
  of each of its dense blocks is finite.
\<close>

theorem res_beta_zero_identity:
  assumes "wf_tensor x" and "chans x = nf"
  shows "(all_finite (rdb5c_x5 nf gc W x) \<longrightarrow>
            ResDenseBlock_5C_call (ResDenseBlock_5C nf gc (Fin 0) wd) W x = Inr x)
       \<and> (all_finite x \<and> all_finite (rdb5c_x5 nf gc (rdb_1_w W') x)
            \<and> all_finite (rdb5c_x5 nf gc (rdb_2_w W') x)
            \<and> all_finite (rdb5c_x5 nf gc (rdb_3_w W') x) \<longrightarrow>
            ResInResDenseBlock_call (ResInResDenseBlock nf gc (Fin 0) wd) W' x = Inr x)"
proof -
  have id: "rdb5c_spec nf gc (Fin 0) V x = x" if "all_finite (rdb5c_x5 nf gc V x)" for V
    unfolding rdb5c_spec_def
    by (rule residual_zero[OF that
          same_shape_same_length[OF assms(1) rdb5c_x5_wf rdb5c_x5_shape[OF assms(2)]]])
  have outer: "residual x (Fin 0) x = x" if "all_finite x"
    by (rule residual_zero[OF that]) simp
  show ?thesis
    using rdb_call_spec[OF assms, of gc "Fin 0" wd W]
      rrdb_call_spec[OF assms, of gc "Fin 0" wd W'] id outer
    by (simp add: rrdb_spec_def)
qed

theorem res_beta_zero_identity_witness:
  "wf_tensor (unit_image (Fin 1)) \<and> chans (unit_image (Fin 1)) = 1
   \<and> all_finite (unit_image (Fin 1))
   \<and> all_finite (rdb5c_x5 1 1 (constant_weights (Fin 5)) (unit_image (Fin 1)))
   \<and> ResDenseBlock_5C_call (ResDenseBlock_5C 1 1 (Fin 0) (Fin 0)) (constant_weights (Fin 5))
      (unit_image (Fin 1)) = Inr (unit_image (Fin 1))
   \<and> ResInResDenseBlock_call (ResInResDenseBlock 1 1 (Fin 0) (Fin 0))
      (constant_rrdb_weights (Fin 5)) (unit_image (Fin 1)) = Inr (unit_image (Fin 1))"
  using res_beta_zero_identity[of "unit_image (Fin 1)" 1 1 "constant_weights (Fin 5)" "Fin 0"
      "constant_rrdb_weights (Fin 5)"]
  by (simp add: unit_image_def wf_tensor_def numel_def all_finite_def rdb5c_x5_def
      conv_same_def constant_weights_def constant_rrdb_weights_def constant_response_def Let_def)

section \<open>Shapes through the two models\<close>

lemma conv_out_dim_sym_same: "conv_out_dim_sym Same 3 (Suc 0) d = Some d"
  by (cases d) (simp_all add: conv_out_dim_sym_def conv_out_dim_def)

lemma Conv2D_sym_same:
  assumes "padding layer = Same" "kernel_size layer = 3" "strides layer = 1"
  shows "Conv2D_sym layer [b, h, w, Some c] = Inr [b, h, w, Some (filters layer)]"
  using assms by (simp add: Conv2D_sym_def conv_out_dim_sym_same)

lemma merge_dim_same: "merge_dim d d = Some d"
  by (cases d) (simp_all add: merge_dim_def)

lemma concat2_sym_same:
  "concat2_sym [b, h, w, Some c] [b, h, w, Some c'] = Inr [b, h, w, Some (c + c')]"
  by (simp add: concat2_sym_def merge_dim_same add_dim_def)

lemma bdim_sym_same: "bdim_sym d d = Some d"
  by (cases d) (simp_all add: bdim_sym_def bdim_def)

lemma add_sym_same: "add_sym [b, h, w, c] [b, h, w, c] = Inr [b, h, w, c]"
  by (simp add: bdim_sym_same and_then_def)

lemma rdb_sym:
  "ResDenseBlock_5C_sym (ResDenseBlock_5C nf gc beta wd) [b, h, w, Some nf]
     = Inr [b, h, w, Some nf]"
  by (simp add: ResDenseBlock_5C_sym_def Conv2D_sym_same rdb_layers and_then_def
      concat2_sym_same add_sym_same del: add_sym.simps)

lemma rrdb_sym:
  "ResInResDenseBlock_sym (ResInResDenseBlock nf gc beta wd) [b, h, w, Some nf]
     = Inr [b, h, w, Some nf]"
  by (simp add: ResInResDenseBlock_sym_def ResInResDenseBlock_def rdb_sym and_then_def
      add_sym_same del: add_sym.simps)

text \<open>
  On an input with \<open>nf\<close> channels the blocks derive for a symbolic tensor the shape that
  their call gives the concrete one.
\<close>

lemma blocks_sym_agree:
  assumes "wf_tensor x" "chans x = nf"
  shows "map_sum id sym_of (ResDenseBlock_5C_call (ResDenseBlock_5C nf gc beta wd) W x)
           = ResDenseBlock_5C_sym (ResDenseBlock_5C nf gc beta wd) (sym_of x)"
    and "map_sum id sym_of (ResInResDenseBlock_call (ResInResDenseBlock nf gc beta wd) W' x)
           = ResInResDenseBlock_sym (ResInResDenseBlock nf gc beta wd) (sym_of x)"
  using assms(2) rdb_sym[of nf gc beta wd "Some (batch x)" "Some (height x)" "Some (width x)"]
    rrdb_sym[of nf gc beta wd "Some (batch x)" "Some (height x)" "Some (width x)"]
  by (simp_all add: rdb_call_spec[OF assms] rrdb_call_spec[OF assms] sym_of_def rdb5c_spec_def
      rrdb_spec_def)

lemma Sequential_sym_replicate:
  "Sequential_sym (replicate n (ResInResDenseBlock nf gc beta wd)) [b, h, w, Some nf]
     = Inr [b, h, w, Some nf]"
  unfolding Sequential_sym_def
  by (induction n) (simp_all add: and_then_def rrdb_sym)

lemma conv_f_fields:
  "padding (conv_f wd f act nm) = Same" "kernel_size (conv_f wd f act nm) = 3"
  "strides (conv_f wd f act nm) = 1" "filters (conv_f wd f act nm) = f"
  by (simp_all add: conv_f_def)

lemma RRDB_graph_shape:
  "RRDB_graph sz channels nf nb gc wd [b, h, w, Some c]
     = Inr [b, dim_times (if sz = None then h else sz) 4,
               dim_times (if sz = None then w else sz) 4, Some channels]"
  by (simp add: RRDB_graph_def Conv2D_sym_same conv_f_fields and_then_def rrdb_f_def
      map_replicate_const Sequential_sym_replicate add_sym_same resize_sym_def shape_dim_def
      Let_def del: add_sym.simps)

text \<open>
  Claim C1. For every configuration with the keys \<open>nf\<close> and \<open>nb\<close> and positive
  \<open>size\<close>, \<open>channels\<close>, \<open>nf\<close> and \<open>gc\<close>, the generator is built, its input has the
  shape \<open>[None, size, size, channels]\<close> and its output the shape
  \<open>[None, 4 * size, 4 * size, channels]\<close>; a batch of \<open>b\<close> such images is mapped to a
  batch of \<open>b\<close> images of four times the height and width and the same channels. When the
  model is built with no fixed size, an image of any height and width comes out four
  times as high and as wide.
\<close>
theorem RRDB_Model_upscales_by_4:
  assumes "cfg_net ''nf'' = Some nf" and "cfg_net ''nb'' = Some nb"
    and "0 < s" and "0 < channels" and "0 < nf" and "0 < gc"
  shows "RRDB_Model (Some s) channels cfg_net gc wd
           = Inr \<lparr>inputs = [None, Some s, Some s, Some channels],
                  outputs = [None, Some (4 * s), Some (4 * s), Some channels]\<rparr>
       \<and> RRDB_graph (Some s) channels nf nb gc wd [Some b, Some s, Some s, Some channels]
           = Inr [Some b, Some (4 * s), Some (4 * s), Some channels]
       \<and> RRDB_graph None channels nf nb gc wd [Some b, Some h, Some w, Some channels]
           = Inr [Some b, Some (4 * h), Some (4 * w), Some channels]"
  using assms(1,2)
  by (simp add: RRDB_Model_def Input_def RRDB_graph_shape and_then_def dim_times_def
      mult.commute)

text \<open>
  The scenario of the specification:
  \<^verbatim>\<open>RRDB_Model(size=32, channels=3, cfg_net={'nf':64,'nb':2}, gc=32)\<close> has the output
  shape \<^verbatim>\<open>[None, 128, 128, 3]\<close>.
\<close>

theorem RRDB_Model_upscales_by_4_witness:
  "[''nf'' \<mapsto> 64, ''nb'' \<mapsto> 2] ''nf'' = Some (64 :: nat)
   \<and> [''nf'' \<mapsto> 64, ''nb'' \<mapsto> 2] ''nb'' = Some (2 :: nat)
   \<and> RRDB_Model (Some 32) 3 [''nf'' \<mapsto> 64, ''nb'' \<mapsto> 2] 32 (Fin 0)
     = Inr \<lparr>inputs = [None, Some 32, Some 32, Some 3],
            outputs = [None, Some 128, Some 128, Some 3]\<rparr>"
  using RRDB_Model_upscales_by_4[of "[''nf'' \<mapsto> 64, ''nb'' \<mapsto> 2]" 64 2 32 3 32 "Fin 0"]
  by simp

text \<open>
  Claim C7. Without the key \<open>nf\<close> the builder of the generator ends with a key error for
  \<open>nf\<close>, and with \<open>nf\<close> but without \<open>nb\<close> with a key error for \<open>nb\<close>, whatever its
  other arguments are: nothing of the model is built before. With both keys it raises no
  key error.
\<close>
theorem RRDB_Model_missing_key:
  "(cfg_net ''nf'' = None \<longrightarrow>
      RRDB_Model sz channels cfg_net gc wd = Inl (KeyError ''nf''))
   \<and> (cfg_net ''nf'' \<noteq> None \<and> cfg_net ''nb'' = None \<longrightarrow>
      RRDB_Model sz channels cfg_net gc wd = Inl (KeyError ''nb''))
   \<and> (cfg_net ''nf'' \<noteq> None \<and> cfg_net ''nb'' \<noteq> None \<longrightarrow>
      RRDB_Model sz channels cfg_net gc wd \<noteq> Inl (KeyError k))"
  by (auto simp add: RRDB_Model_def Input_def RRDB_graph_shape and_then_def)

theorem RRDB_Model_missing_key_witness:
  "RRDB_Model (Some 32) 3 Map.empty 32 (Fin 0) = Inl (KeyError ''nf'')
   \<and> RRDB_Model (Some 32) 3 [''nf'' \<mapsto> 64] 32 (Fin 0) = Inl (KeyError ''nb'')
   \<and> RRDB_Model (Some 32) 3 [''nf'' \<mapsto> 64, ''nb'' \<mapsto> 2] 32 (Fin 0) \<noteq> Inl (KeyError ''nf'')"
  using RRDB_Model_missing_key[of Map.empty "Some 32" 3 32 "Fin 0" "''nf''"]
    RRDB_Model_missing_key[of "[''nf'' \<mapsto> 64]" "Some 32" 3 32 "Fin 0" "''nf''"]
    RRDB_Model_missing_key[of "[''nf'' \<mapsto> 64, ''nb'' \<mapsto> 2]" "Some 32" 3 32 "Fin 0" "''nf''"]
  by simp

lemma halve: "(32 * m + 1) div 2 = (16 * m :: nat)" "(16 * m + 1) div 2 = (8 * m :: nat)"
  "(8 * m + 1) div 2 = (4 * m :: nat)" "(4 * m + 1) div 2 = (2 * m :: nat)"
  "(2 * m + 1) div 2 = (m :: nat)"
  by simp_all

lemma discriminator_stages:
  "apply_layers (take 19 (DiscriminatorVGG128_layers nf wd)) [b, Some (32 * m), Some (32 * m), Some c]
     = Inr [b, Some m, Some m, Some (nf * 8)]"
  by (simp add: apply_layers_def DiscriminatorVGG128_layers_def conv_k3s1_f_def conv_k4s2_f_def
      and_then_def Conv2D_sym_def conv_out_dim_sym_def conv_out_dim_def halve)

lemma discriminator_all:
  "apply_layers (DiscriminatorVGG128_layers nf wd) [b, Some (32 * m), Some (32 * m), Some c]
     = Inr [b, Some 1]"
  by (simp add: apply_layers_def DiscriminatorVGG128_layers_def conv_k3s1_f_def conv_k4s2_f_def
      dense_f_def and_then_def Conv2D_sym_def conv_out_dim_sym_def conv_out_dim_def halve)

text \<open>
  Claim C5. For every positive size divisible by 32 and every positive \<open>channels\<close> and
  \<open>nf\<close>, the discriminator is built with an output of shape \<open>[None, 1]\<close>. Five of its
  layers have stride 2; after the five stages a batch of \<open>b\<close> images has the shape
  \<open>[b, size div 32, size div 32, nf * 8]\<close>, and the pooling and the dense unit map it
  to \<open>[b, 1]\<close>.
\<close>
theorem DiscriminatorVGG128_output_shape:
  assumes "32 dvd s" and "0 < s" and "0 < channels" and "0 < nf"
  shows "DiscriminatorVGG128 (Some s) channels nf wd
           = Inr \<lparr>inputs = [None, Some s, Some s, Some channels], outputs = [None, Some 1]\<rparr>
       \<and> length (filter is_stride2 (DiscriminatorVGG128_layers nf wd)) = 5
       \<and> apply_layers (take 19 (DiscriminatorVGG128_layers nf wd))
             [Some b, Some s, Some s, Some channels]
           = Inr [Some b, Some (s div 32), Some (s div 32), Some (nf * 8)]
       \<and> apply_layers (DiscriminatorVGG128_layers nf wd) [Some b, Some s, Some s, Some channels]
           = Inr [Some b, Some 1]"
proof -
  from assms(1) obtain m where m: "s = 32 * m" by (auto simp: dvd_def)
  have "length (filter is_stride2 (DiscriminatorVGG128_layers nf wd)) = 5"
    by (simp add: DiscriminatorVGG128_layers_def conv_k3s1_f_def conv_k4s2_f_def dense_f_def)
  then show ?thesis
    using m by (simp add: DiscriminatorVGG128_def Input_def discriminator_stages
        discriminator_all and_then_def)
qed

text \<open>
  The scenario of the specification: \<^verbatim>\<open>DiscriminatorVGG128(size=128, channels=3, nf=64)\<close>
  has the output shape \<^verbatim>\<open>[None, 1]\<close>.
\<close>

theorem DiscriminatorVGG128_output_shape_witness:
  "32 dvd (128 :: nat)
   \<and> DiscriminatorVGG128 (Some 128) 3 64 (Fin 0)
     = Inr \<lparr>inputs = [None, Some 128, Some 128, Some 3], outputs = [None, Some 1]\<rparr>"
  using DiscriminatorVGG128_output_shape[of 128 3 64 "Fin 0"]
  by simp

text \<open>
  Claim C8. The layers of the discriminator are stage 0 (a 3x3 convolution to \<open>nf\<close>
  channels with bias, a 4x4 convolution of stride 2 to \<open>nf\<close> channels without bias, a
  batch normalisation), then stages 1 to 4 (each a 3x3 convolution without bias, a GELU,
  a 4x4 convolution of stride 2 without bias, a batch normalisation), then the pooling
  and the dense unit. No layer of stage 0 applies an activation, and the widths of stages
  1 to 4 are \<open>nf * 2\<close>, \<open>nf * 4\<close>, \<open>nf * 8\<close> and \<open>nf * 8\<close>.
\<close>
theorem DiscriminatorVGG128_stages:
  "DiscriminatorVGG128_layers nf wd
     = stage0_spec nf wd @ stage_spec nf wd 1 @ stage_spec nf wd 2 @ stage_spec nf wd 3
       @ stage_spec nf wd 4 @ [GlobalAveragePooling2D_layer, dense_f wd 1 ''linear1'']
   \<and> filter is_activated (stage0_spec nf wd) = []
   \<and> map (stage_width nf) [1, 2, 3, 4] = [nf * 2, nf * 4, nf * 8, nf * 8]"
  by (simp add: DiscriminatorVGG128_layers_def stage0_spec_def stage_spec_def stage_conv_def
      stage_bn_def stage_digit_def stage_width_def conv_k3s1_f_def conv_k4s2_f_def)


end
